theory Spec2Isabelle
  imports Main "HOL-Library.Word"
begin

section \<open>JavaScript strings\<close>

text \<open>
  A JavaScript string is a sequence of UTF-16 code units: \<open>length\<close>, \<open>substring\<close>,
  \<open>trim\<close> and the regular expression class \<open>\s\<close> all work on code units.
  \<open>js\<close> embeds an ASCII literal.
\<close>

type_synonym jschar = "16 word"
type_synonym jsstring = "jschar list"

definition js :: "string \<Rightarrow> jsstring" where
  "js s = map of_char s"

text \<open>
  The code units matched by \<open>\s\<close> and stripped by \<open>String.prototype.trim\<close>
  (ECMAScript WhiteSpace and LineTerminator).
\<close>

definition is_js_space :: "jschar \<Rightarrow> bool" where
  "is_js_space c \<longleftrightarrow>
     c \<in> set [0x9, 0xA, 0xB, 0xC, 0xD, 0x20, 0xA0, 0x1680, 0x2028, 0x2029,
                0x202F, 0x205F, 0x3000, 0xFEFF]
     \<or> (0x2000 \<le> c \<and> c \<le> 0x200A)"

definition trim :: "jsstring \<Rightarrow> jsstring" where
  "trim s = rev (dropWhile is_js_space (rev (dropWhile is_js_space s)))"

text \<open>\<open>s.replace(/\s+/g, ' ')\<close>: every maximal run of white space becomes one space.\<close>

function collapse_ws :: "jsstring \<Rightarrow> jsstring" where
  "collapse_ws [] = []"
| "collapse_ws (c # cs) =
     (if is_js_space c then 0x20 # collapse_ws (dropWhile is_js_space cs)
      else c # collapse_ws cs)"
  by pat_completeness auto
termination
  by (relation "measure length") (auto simp: length_dropWhile_le less_Suc_eq_le)

text \<open>
  \<open>s.split(/\s+/)\<close>: the pieces between maximal runs of white space. A string that
  starts or ends with white space yields an empty first or last piece, and the empty
  string yields one empty piece. The first argument is the piece being read.
\<close>

function js_split_ws :: "jsstring \<Rightarrow> jsstring \<Rightarrow> jsstring list" where
  "js_split_ws acc [] = [acc]"
| "js_split_ws acc (c # cs) =
     (if is_js_space c then acc # js_split_ws [] (dropWhile is_js_space cs)
      else js_split_ws (acc @ [c]) cs)"
  by pat_completeness auto
termination
  by (relation "measure (\<lambda>(acc, s). length s)") (auto simp: length_dropWhile_le less_Suc_eq_le)

text \<open>\<open>Boolean(s)\<close> on a string: only the empty string is falsy.\<close>

definition truthy_str :: "jsstring \<Rightarrow> bool" where
  "truthy_str s \<longleftrightarrow> s \<noteq> []"

definition count_words :: "jsstring \<Rightarrow> nat" where
  "count_words s = length (filter truthy_str (js_split_ws [] s))"

text \<open>
  The specification's words for the word count: the non-empty white-space-delimited
  tokens of a text. This definition follows the specification, not the code; it is
  compared with \<open>count_words\<close> below.
\<close>

function ws_tokens :: "jsstring \<Rightarrow> jsstring list" where
  "ws_tokens [] = []"
| "ws_tokens (c # cs) =
     (if is_js_space c then ws_tokens cs
      else (c # takeWhile (\<lambda>x. \<not> is_js_space x) cs)
             # ws_tokens (dropWhile (\<lambda>x. \<not> is_js_space x) cs))"
  by pat_completeness auto
termination
  by (relation "measure length") (auto simp: length_dropWhile_le less_Suc_eq_le)

text \<open>
  \<open>String.prototype.toUpperCase\<close> maps an ASCII string letter by letter. On other
  strings it applies the Unicode case mapping, which is part of the runtime and not of
  this repository: it is taken as the parameter \<open>unicode_upper\<close>.
\<close>

definition ascii_upper :: "jschar \<Rightarrow> jschar" where
  "ascii_upper c = (if 0x61 \<le> c \<and> c \<le> 0x7A then c - 0x20 else c)"

definition toUpperCase :: "(jsstring \<Rightarrow> jsstring) \<Rightarrow> jsstring \<Rightarrow> jsstring" where
  "toUpperCase unicode_upper s =
     (if list_all (\<lambda>c. c < 0x80) s then map ascii_upper s else unicode_upper s)"

section \<open>JSON values\<close>

text \<open>
  Data received from the upstream search service. A field that is absent reads as
  \<open>undefined\<close>, which is \<open>None\<close> of \<open>json option\<close>. Numbers are restricted to
  integers.
\<close>

datatype json =
    JNull
  | JBool bool
  | JNum int
  | JStr jsstring
  | JArr "json list"
  | JObj "(jsstring \<times> json) list"

text \<open>The truthiness that \<open>!\<close>, \<open>||\<close> and \<open>?:\<close> test.\<close>

fun truthy :: "json option \<Rightarrow> bool" where
  "truthy None = False"
| "truthy (Some JNull) = False"
| "truthy (Some (JBool b)) = b"
| "truthy (Some (JNum n)) = (n \<noteq> 0)"
| "truthy (Some (JStr s)) = truthy_str s"
| "truthy (Some (JArr xs)) = True"
| "truthy (Some (JObj fs)) = True"

fun isArray :: "json option \<Rightarrow> bool" where
  "isArray (Some (JArr xs)) = True"
| "isArray v = False"

text \<open>\<open>a || b\<close> on an optional string and on an optional value.\<close>

definition or_str :: "jsstring option \<Rightarrow> jsstring \<Rightarrow> jsstring" where
  "or_str a b = (case a of None \<Rightarrow> b | Some s \<Rightarrow> if truthy_str s then s else b)"

definition or_json :: "json option \<Rightarrow> json \<Rightarrow> json" where
  "or_json a b = (if truthy a then the a else b)"

section \<open>Errors and responses\<close>

text \<open>
  The message of an \<open>Error\<close>. The constructors stand for the message templates of
  the source; \<open>Native\<close> is a message produced by the runtime or by a library.
\<close>

datatype errmsg =
    InvalidUrlFormat jsstring
  | HttpFailure int jsstring
  | ContentExtractionError errmsg
  | ExtractionFailed jsstring
  | BatchLimit
  | UnknownError
  | UnknownErrorOccurred
  | Native jsstring

text \<open>
  The \<open>error\<close> object of the upstream service's error body, \<open>response.data.error\<close>:
  a code, a message and a list of (reason, message) pairs, each possibly absent.
\<close>

record error_info =
  ei_code :: "int option"
  ei_message :: "jsstring option"
  ei_errors :: "(jsstring option \<times> jsstring option) list option"

text \<open>
  What a \<open>catch\<close> clause can receive: an axios error that carries a response (status,
  error body, message), any other \<open>Error\<close>, or a value that is not an \<open>Error\<close>.
\<close>

datatype thrown =
    AxiosResponseError int "error_info option" errmsg
  | ErrorObject errmsg
  | NonError

datatype "context" = Search | WebpageExtraction | BatchWebpageExtraction

text \<open>
  The texts of the error responses. Each constructor is one literal or template of the
  source, named after the error of the specification it reports.
\<close>

datatype message =
    EmptyQuery
  | InvalidResultCount
  | NoResults
  | InvalidUrl
  | LimitExceeded
  | InvalidUrls "jsstring list"
  | NoContentExtracted
  | Failed "context" "int option" errmsg "(jsstring option \<times> jsstring option) list"

text \<open>
  A tool response: \<open>IsError\<close> has the flag \<open>isError: true\<close>; \<open>Content\<close> carries the
  value whose JSON text is returned.
\<close>

datatype 'a response = IsError message | Content 'a

definition handleError :: "thrown \<Rightarrow> context \<Rightarrow> 'a response" where
  "handleError error ctx =
     (case error of
        AxiosResponseError status data msg \<Rightarrow>
          (let errorCode = (case Option.bind data ei_code of
                              None \<Rightarrow> status
                            | Some c \<Rightarrow> if c \<noteq> 0 then c else status);
               errorMessage = (case Option.bind data ei_message of
                                 None \<Rightarrow> msg
                               | Some m \<Rightarrow> if truthy_str m then Native m else msg);
               errorDetails = (case Option.bind data ei_errors of
                                 None \<Rightarrow> []
                               | Some es \<Rightarrow> es)
           in IsError (Failed ctx (Some errorCode) errorMessage errorDetails))
      | ErrorObject msg \<Rightarrow> IsError (Failed ctx None msg [])
      | NonError \<Rightarrow> IsError (Failed ctx None UnknownError []))"

section \<open>The environment\<close>

text \<open>
  The observable effects of a call, in the order in which they are issued: reading the
  credentials, the request to the search service, and the request for a page.
\<close>

record search_params =
  key :: jsstring
  cx :: jsstring
  q :: jsstring
  num :: int
  dateRestrict :: "jsstring option"
  lr :: "jsstring option"
  cr :: "jsstring option"
  safe :: jsstring

datatype event =
    CredentialLookup
  | SearchRequest search_params
  | PageRequest jsstring

record URL =
  protocol :: jsstring
  hostname :: jsstring

record search_data =
  items :: "json option"

section \<open>URL syntax\<close>

text \<open>
  \<open>new URL(url)\<close> is the WHATWG URL parser of the runtime, called without a base URL.
  Its first steps are modelled here: leading and trailing C0 control characters and
  spaces are stripped, tabs and newlines are removed, and the input must then begin with
  a scheme (an ASCII letter, then letters, digits, \<open>+\<close>, \<open>-\<close> or \<open>.\<close>, then \<open>:\<close>);
  otherwise the constructor throws. What the parser does after the scheme is the
  parameter \<open>url_parser\<close> of the environment. The parser accepts any scheme.
\<close>

definition is_ascii_alpha :: "jschar \<Rightarrow> bool" where
  "is_ascii_alpha c \<longleftrightarrow> (0x41 \<le> c \<and> c \<le> 0x5A) \<or> (0x61 \<le> c \<and> c \<le> 0x7A)"

definition is_ascii_digit :: "jschar \<Rightarrow> bool" where
  "is_ascii_digit c \<longleftrightarrow> 0x30 \<le> c \<and> c \<le> 0x39"

definition is_scheme_char :: "jschar \<Rightarrow> bool" where
  "is_scheme_char c \<longleftrightarrow>
     is_ascii_alpha c \<or> is_ascii_digit c \<or> c = 0x2B \<or> c = 0x2D \<or> c = 0x2E"

definition url_input :: "jsstring \<Rightarrow> jsstring" where
  "url_input s =
     filter (\<lambda>c. c \<noteq> 0x9 \<and> c \<noteq> 0xA \<and> c \<noteq> 0xD)
       (rev (dropWhile (\<lambda>c. c \<le> 0x20) (rev (dropWhile (\<lambda>c. c \<le> 0x20) s))))"

definition has_scheme :: "jsstring \<Rightarrow> bool" where
  "has_scheme s =
     (case s of
        [] \<Rightarrow> False
      | c # cs \<Rightarrow> is_ascii_alpha c \<and>
          (case dropWhile is_scheme_char cs of [] \<Rightarrow> False | d # ds \<Rightarrow> d = 0x3A))"

section \<open>Parsed documents\<close>

text \<open>
  The tree that \<open>cheerio.load\<close> builds: elements with a lower-case tag name, attributes
  and children, and text nodes. A loaded document always has one \<open>html\<close> element with
  one \<open>head\<close> and one \<open>body\<close>.
\<close>

datatype node =
    Element jsstring "(jsstring \<times> jsstring) list" "node list"
  | Text jsstring

record document =
  html_attrs :: "(jsstring \<times> jsstring) list"
  head_attrs :: "(jsstring \<times> jsstring) list"
  head_nodes :: "node list"
  body_attrs :: "(jsstring \<times> jsstring) list"
  body_nodes :: "node list"

definition body_element :: "document \<Rightarrow> node" where
  "body_element d = Element (js ''body'') (body_attrs d) (body_nodes d)"

definition root_element :: "document \<Rightarrow> node" where
  "root_element d =
     Element (js ''html'') (html_attrs d)
       [Element (js ''head'') (head_attrs d) (head_nodes d), body_element d]"

fun tagName :: "node \<Rightarrow> jsstring" where
  "tagName (Element t a cs) = t"
| "tagName (Text s) = []"

fun attr :: "node \<Rightarrow> jsstring \<Rightarrow> jsstring option" where
  "attr (Element t a cs) k = map_of a k"
| "attr (Text s) k = None"

fun children :: "node \<Rightarrow> node list" where
  "children (Element t a cs) = cs"
| "children (Text s) = []"

text \<open>\<open>.text()\<close>: the text nodes below a node, concatenated in document order.\<close>

fun text_of :: "node \<Rightarrow> jsstring" where
  "text_of (Text s) = s"
| "text_of (Element t a cs) = concat (map text_of cs)"

text \<open>The elements of a subtree, the node itself first, in document order.\<close>

fun elems :: "node \<Rightarrow> node list" where
  "elems (Text s) = []"
| "elems (Element t a cs) = Element t a cs # concat (map elems cs)"

text \<open>\<open>$(selector)\<close> over a forest, and \<open>$(element).find(selector)\<close> below one element.\<close>

definition select :: "(node \<Rightarrow> bool) \<Rightarrow> node list \<Rightarrow> node list" where
  "select P forest = filter P (concat (map elems forest))"

definition find_in :: "(node \<Rightarrow> bool) \<Rightarrow> node \<Rightarrow> node list" where
  "find_in P n = select P (children n)"

text \<open>
  \<open>$(rootSelector).find(selector)\<close>: the elements matching \<open>T\<close> that lie strictly
  below some element matching \<open>R\<close>, each once, in document order. The flag says
  whether an ancestor matches \<open>R\<close>.
\<close>

fun find_under :: "(node \<Rightarrow> bool) \<Rightarrow> (node \<Rightarrow> bool) \<Rightarrow> bool \<Rightarrow> node \<Rightarrow> node list" where
  "find_under R T inside (Text s) = []"
| "find_under R T inside (Element t a cs) =
     (if inside \<and> T (Element t a cs) then [Element t a cs] else [])
     @ concat (map (find_under R T (inside \<or> R (Element t a cs))) cs)"

section \<open>Selectors\<close>

definition is_tag :: "string \<Rightarrow> node \<Rightarrow> bool" where
  "is_tag t n \<longleftrightarrow> tagName n = js t"

definition is_css_space :: "jschar \<Rightarrow> bool" where
  "is_css_space c \<longleftrightarrow> c \<in> set [0x20, 0x9, 0xA, 0xC, 0xD]"

text \<open>The words of an attribute value, as the class selector \<open>.name\<close> reads them.\<close>

function css_words :: "jsstring \<Rightarrow> jsstring list" where
  "css_words [] = []"
| "css_words (c # cs) =
     (if is_css_space c then css_words cs
      else (c # takeWhile (\<lambda>x. \<not> is_css_space x) cs)
             # css_words (dropWhile (\<lambda>x. \<not> is_css_space x) cs))"
  by pat_completeness auto
termination
  by (relation "measure length") (auto simp: length_dropWhile_le less_Suc_eq_le)

definition has_class :: "string \<Rightarrow> node \<Rightarrow> bool" where
  "has_class c n =
     (case attr n (js ''class'') of None \<Rightarrow> False | Some v \<Rightarrow> js c \<in> set (css_words v))"

definition has_attr :: "string \<Rightarrow> string \<Rightarrow> node \<Rightarrow> bool" where
  "has_attr k v n \<longleftrightarrow> attr n (js k) = Some (js v)"

text \<open>
  \<open>script, style, nav, footer, header, aside, iframe, .ads, .advertisement, .banner,
  #banner, #ads\<close>
\<close>

definition noise :: "node \<Rightarrow> bool" where
  "noise n \<longleftrightarrow>
     tagName n \<in> set (map js [''script'', ''style'', ''nav'', ''footer'', ''header'',
                                 ''aside'', ''iframe''])
     \<or> has_class ''ads'' n \<or> has_class ''advertisement'' n \<or> has_class ''banner'' n
     \<or> has_attr ''id'' ''banner'' n \<or> has_attr ''id'' ''ads'' n"

text \<open>\<open>.remove()\<close> of the noise: \<open>strip\<close> below a node that stays, \<open>remove_noise\<close> on a forest.\<close>

fun strip :: "node \<Rightarrow> node" where
  "strip (Text s) = Text s"
| "strip (Element t a cs) = Element t a (map strip (filter (\<lambda>c. \<not> noise c) cs))"

definition remove_noise :: "node list \<Rightarrow> node list" where
  "remove_noise forest = map strip (filter (\<lambda>c. \<not> noise c) forest)"

text \<open>\<open>div.content, div.main, div#content, div#main\<close>\<close>

definition is_content_div :: "node \<Rightarrow> bool" where
  "is_content_div n \<longleftrightarrow>
     is_tag ''div'' n \<and>
     (has_class ''content'' n \<or> has_class ''main'' n
      \<or> has_attr ''id'' ''content'' n \<or> has_attr ''id'' ''main'' n)"

definition is_role_main :: "node \<Rightarrow> bool" where
  "is_role_main n \<longleftrightarrow> is_tag ''div'' n \<and> has_attr ''role'' ''main'' n"

text \<open>\<open>h1, h2, h3, h4, h5, h6, p, ul, ol, blockquote\<close>\<close>

definition is_block :: "node \<Rightarrow> bool" where
  "is_block n \<longleftrightarrow>
     tagName n \<in> set (map js [''h1'', ''h2'', ''h3'', ''h4'', ''h5'', ''h6'', ''p'', ''ul'',
                                 ''ol'', ''blockquote''])"

text \<open>\<open>$(selector).attr(name)\<close>: the attribute of the first element selected.\<close>

definition first_attr :: "node list \<Rightarrow> string \<Rightarrow> jsstring option" where
  "first_attr sel k = (case sel of [] \<Rightarrow> None | n # ns \<Rightarrow> attr n (js k))"

section \<open>Extraction\<close>

text \<open>
  Assignment \<open>obj[k] = v\<close> to a plain object used as a dictionary. A key that is present
  keeps its place. The key \<open>__proto__\<close> names the prototype accessor of the object: the
  assignment creates no own property (an object value becomes the prototype, any other
  value is ignored), so the key never shows among \<open>Object.keys\<close>.
\<close>

fun obj_set :: "(jsstring \<times> 'v) list \<Rightarrow> jsstring \<Rightarrow> 'v \<Rightarrow> (jsstring \<times> 'v) list" where
  "obj_set [] k v = (if k = js ''__proto__'' then [] else [(k, v)])"
| "obj_set ((k', v') # ps) k v =
     (if k = js ''__proto__'' then (k', v') # ps
      else if k' = k then (k, v) # ps
      else (k', v') # obj_set ps k v)"

definition keys :: "(jsstring \<times> 'v) list \<Rightarrow> jsstring list" where
  "keys obj = map fst obj"

text \<open>The callback of \<open>$('meta').each\<close>.\<close>

definition collect_meta :: "(jsstring \<times> jsstring) list \<Rightarrow> node \<Rightarrow> (jsstring \<times> jsstring) list" where
  "collect_meta metaTags element =
     (let name = (case attr element (js ''name'') of
                    None \<Rightarrow> attr element (js ''property'')
                  | Some s \<Rightarrow> if truthy_str s then Some s else attr element (js ''property''));
          content = attr element (js ''content'')
      in case (name, content) of
           (Some n, Some c) \<Rightarrow>
             if truthy_str n \<and> truthy_str c then obj_set metaTags n c else metaTags
         | _ \<Rightarrow> metaTags)"

text \<open>
  \<open>parseInt\<close> of the text after the \<open>h\<close> of a heading tag, as the count given to
  \<open>'#'.repeat\<close>: the value of the leading decimal digits, and 0 (from \<open>NaN\<close>) when
  there is none. The selected tags are \<open>h1\<close> to \<open>h6\<close>, so no sign, space or radix
  prefix occurs.
\<close>

definition parseInt :: "jsstring \<Rightarrow> nat" where
  "parseInt s = foldl (\<lambda>n c. 10 * n + unat (c - 0x30)) 0 (takeWhile is_ascii_digit s)"

text \<open>
  The callback of \<open>mainContent.find(...).each\<close>: the text that one element appends to
  \<open>markdownContent\<close>. Tag names of a loaded document are lower-case already.
\<close>

definition render_block :: "node \<Rightarrow> jsstring" where
  "render_block element =
     (let tag = tagName element;
          text = collapse_ws (trim (text_of element))
      in if \<not> truthy_str text then []
         else if take 1 tag = js ''h'' then
           replicate (parseInt (drop 1 tag)) 0x23 @ js '' '' @ text @ [0xA, 0xA]
         else if tag = js ''p'' then text @ [0xA, 0xA]
         else if tag = js ''ul'' \<or> tag = js ''ol'' then
           concat (map (\<lambda>li. js ''- '' @ trim (text_of li) @ [0xA])
                     (find_in (is_tag ''li'') element)) @ [0xA]
         else if tag = js ''blockquote'' then js ''> '' @ text @ [0xA, 0xA]
         else [])"

text \<open>
  The elements that \<open>mainContent.find(...)\<close> visits, after the noise has been removed:
  below \<open>main\<close>, else \<open>article\<close>, else \<open>div[role="main"]\<close>, else the content
  \<open>div\<close>s, else below the body. The body is held in a variable before the removal, so
  it is still the region when the removal detached it.
\<close>

definition main_blocks :: "document \<Rightarrow> node list" where
  "main_blocks d =
     (let cleaned = remove_noise [root_element d];
          under = (\<lambda>R. concat (map (find_under R is_block False) cleaned))
      in if select (is_tag ''main'') cleaned \<noteq> [] then under (is_tag ''main'')
         else if select (is_tag ''article'') cleaned \<noteq> [] then under (is_tag ''article'')
         else if select is_role_main cleaned \<noteq> [] then under is_role_main
         else if select is_content_div cleaned \<noteq> [] then under is_content_div
         else find_in is_block (strip (body_element d)))"

record Stats =
  word_count :: nat
  approximate_chars :: nat

record ContentPreview =
  first_500_chars :: jsstring

record WebpageContent =
  url :: jsstring
  title :: jsstring
  description :: jsstring
  markdown_content :: jsstring
  meta_tags :: "(jsstring \<times> jsstring) list"
  stats :: Stats
  content_preview :: ContentPreview

text \<open>The part of \<open>fetchContent\<close> after \<open>cheerio.load\<close>.\<close>

definition extractContent :: "document \<Rightarrow> jsstring \<Rightarrow> WebpageContent" where
  "extractContent d u =
     (let doc = [root_element d];
          title = or_str (Some (trim (concat (map text_of (select (is_tag ''title'') doc)))))
                    (js ''No Title'');
          description =
            or_str (first_attr (select (\<lambda>n. is_tag ''meta'' n \<and> has_attr ''name'' ''description'' n) doc)
                      ''content'')
              (or_str (first_attr (select (\<lambda>n. is_tag ''meta'' n \<and> has_attr ''property'' ''og:description'' n) doc)
                         ''content'')
                 []);
          metaTags = foldl collect_meta [] (select (is_tag ''meta'') doc);
          markdownContent = concat (map render_block (main_blocks d));
          wordCount = count_words markdownContent
      in \<lparr> url = u, title = title, description = description,
           markdown_content = markdownContent, meta_tags = metaTags,
           stats = \<lparr> word_count = wordCount, approximate_chars = length markdownContent \<rparr>,
           content_preview = \<lparr> first_500_chars = take 500 markdownContent \<rparr> \<rparr>)"

section \<open>The content fetcher\<close>

text \<open>
  What the code reads from outside: the environment variables, the rest of the URL
  parser, the Unicode case mapping, the answers of the search service and of the web
  (\<open>axios.get\<close>, which returns the body or throws), and the HTML parser.
\<close>

record env =
  test_mode :: bool
  GOOGLE_API_KEY :: "jsstring option"
  GOOGLE_SEARCH_ENGINE_ID :: "jsstring option"
  url_parser :: "jsstring \<Rightarrow> URL option"
  unicode_upper :: "jsstring \<Rightarrow> jsstring"
  search_api :: "search_params \<Rightarrow> thrown + search_data"
  http_get :: "jsstring \<Rightarrow> thrown + jsstring"
  cheerio_load :: "jsstring \<Rightarrow> document"

text \<open>\<open>new URL(url)\<close>: \<open>None\<close> when the constructor throws.\<close>

definition new_URL :: "env \<Rightarrow> jsstring \<Rightarrow> URL option" where
  "new_URL e u = (if has_scheme (url_input u) then url_parser e u else None)"

definition generateMockWebpageContent :: "env \<Rightarrow> jsstring \<Rightarrow> thrown + WebpageContent" where
  "generateMockWebpageContent e u =
     (case new_URL e u of
        None \<Rightarrow> Inl (ErrorObject (Native (js ''Invalid URL'')))
      | Some urlObj \<Rightarrow>
          (let domain = hostname urlObj;
               body = js ''# Mock Content for '' @ domain @ [0xA, 0xA]
                 @ js ''This is a mock webpage content generated for testing purposes.''
                 @ [0xA, 0xA] @ js ''## Section 1'' @ [0xA, 0xA]
                 @ js ''Lorem ipsum dolor sit amet, consectetur adipiscing elit.''
                 @ [0xA, 0xA] @ js ''## Section 2'' @ [0xA, 0xA]
                 @ js ''Ut enim ad minim veniam, quis nostrud exercitation ullamco laboris.''
           in Inr \<lparr> url = u,
                    title = js ''Mock Page Title for '' @ domain,
                    description =
                      js ''This is a mock webpage description for testing purposes. URL: '' @ u,
                    markdown_content = body,
                    meta_tags = [(js ''author'', js ''Mock Generator''),
                                 (js ''description'', js ''Mock webpage for '' @ domain),
                                 (js ''keywords'', js ''mock, test, webpage'')],
                    stats = \<lparr> word_count = 50, approximate_chars = 300 \<rparr>,
                    content_preview = \<lparr> first_500_chars = body \<rparr> \<rparr>))"

text \<open>The \<open>catch\<close> clause of \<open>fetchContent\<close>: every failure is thrown again as an \<open>Error\<close>.\<close>

definition rethrow :: "jsstring \<Rightarrow> thrown \<Rightarrow> thrown" where
  "rethrow u error =
     (case error of
        AxiosResponseError status data msg \<Rightarrow> ErrorObject (HttpFailure status u)
      | ErrorObject msg \<Rightarrow> ErrorObject (ContentExtractionError msg)
      | NonError \<Rightarrow> ErrorObject (ExtractionFailed u))"

text \<open>
  \<open>fetchContent\<close> returns the page content or the error thrown, with the requests it
  issued. In test mode the mock is returned outside the \<open>try\<close>.
\<close>

definition fetchContent :: "env \<Rightarrow> jsstring \<Rightarrow> (thrown + WebpageContent) \<times> event list" where
  "fetchContent e u =
     (if test_mode e then (generateMockWebpageContent e u, [])
      else
        (case new_URL e u of
           None \<Rightarrow> (Inl (rethrow u (ErrorObject (InvalidUrlFormat u))), [])
         | Some parsed \<Rightarrow>
             (case http_get e u of
                Inl error \<Rightarrow> (Inl (rethrow u error), [PageRequest u])
              | Inr html \<Rightarrow> (Inr (extractContent (cheerio_load e html) u), [PageRequest u]))))"

datatype entry = Page WebpageContent | ErrorEntry errmsg

text \<open>The test-mode loop of \<open>batchFetchContent\<close>: the first mock that throws ends it.\<close>

fun mockResults :: "env \<Rightarrow> (jsstring \<times> entry) list \<Rightarrow> jsstring list
    \<Rightarrow> thrown + (jsstring \<times> entry) list" where
  "mockResults e results [] = Inr results"
| "mockResults e results (u # us) =
     (case generateMockWebpageContent e u of
        Inl error \<Rightarrow> Inl error
      | Inr content \<Rightarrow> mockResults e (obj_set results u (Page content)) us)"

text \<open>
  The body of \<open>urls.map(async (url) => ...)\<close> for one URL: the entry stored under the
  URL and the requests issued. Every request is issued before any answer arrives, in
  the order of the list; the entries do not depend on the order of the answers.
\<close>

definition fetchEntry :: "env \<Rightarrow> jsstring \<Rightarrow> entry \<times> event list" where
  "fetchEntry e u =
     (case fetchContent e u of
        (Inr content, log) \<Rightarrow> (Page content, log)
      | (Inl (ErrorObject msg), log) \<Rightarrow> (ErrorEntry msg, log)
      | (Inl (AxiosResponseError status data msg), log) \<Rightarrow> (ErrorEntry msg, log)
      | (Inl NonError, log) \<Rightarrow> (ErrorEntry UnknownErrorOccurred, log))"

fun fetchAll :: "env \<Rightarrow> (jsstring \<times> entry) list \<Rightarrow> jsstring list
    \<Rightarrow> (jsstring \<times> entry) list \<times> event list" where
  "fetchAll e results [] = (results, [])"
| "fetchAll e results (u # us) =
     (let (entry, log) = fetchEntry e u;
          (results', log') = fetchAll e (obj_set results u entry) us
      in (results', log @ log'))"

definition batchFetchContent :: "env \<Rightarrow> jsstring list
    \<Rightarrow> (thrown + (jsstring \<times> entry) list) \<times> event list" where
  "batchFetchContent e urls =
     (if test_mode e then (mockResults e [] urls, [])
      else if length urls > 5 then (Inl (ErrorObject BatchLimit), [])
      else (let (results, log) = fetchAll e [] urls in (Inr results, log)))"

section \<open>The search service\<close>

definition getApiKeys :: "env \<Rightarrow> jsstring \<times> jsstring" where
  "getApiKeys e =
     (if test_mode e then
        (or_str (GOOGLE_API_KEY e) (js ''mock_api_key''),
         or_str (GOOGLE_SEARCH_ENGINE_ID e) (js ''mock_search_engine_id''))
      else (or_str (GOOGLE_API_KEY e) [], or_str (GOOGLE_SEARCH_ENGINE_ID e) []))"

text \<open>
  The arguments of \<open>handleSearch\<close>. \<open>num_results\<close> is restricted to integers; an
  optional field that is absent is \<open>None\<close>.
\<close>

record search_args =
  query :: jsstring
  num_results :: "int option"
  date_restrict :: "jsstring option"
  language :: "jsstring option"
  country :: "jsstring option"
  safe_search :: "jsstring option"

text \<open>
  A named property of a received value. Only an object has own data properties under
  the names the code reads; \<open>?.\<close> stops at \<open>undefined\<close> and \<open>null\<close>.
\<close>

fun getProp :: "json \<Rightarrow> string \<Rightarrow> json option" where
  "getProp (JObj fs) k = map_of fs (js k)"
| "getProp v k = None"

fun optProp :: "json option \<Rightarrow> string \<Rightarrow> json option" where
  "optProp None k = None"
| "optProp (Some JNull) k = None"
| "optProp (Some v) k = getProp v k"

text \<open>\<open>v?.[0]\<close>\<close>

fun opt_first :: "json option \<Rightarrow> json option" where
  "opt_first (Some (JArr (x # xs))) = Some x"
| "opt_first (Some (JStr (c # cs))) = Some (JStr [c])"
| "opt_first (Some (JObj fs)) = map_of fs (js ''0'')"
| "opt_first v = None"

record SearchResult =
  result_title :: "json option"
  link :: "json option"
  snippet :: "json option"
  pagemap :: "json option"
  datePublished :: json
  source :: json

text \<open>The callback of \<open>items.map\<close>. Reading a property of \<open>null\<close> throws a \<open>TypeError\<close>.\<close>

definition toSearchResult :: "json \<Rightarrow> thrown + SearchResult" where
  "toSearchResult item =
     (if item = JNull then
        Inl (ErrorObject (Native (js ''Cannot read properties of null'')))
      else Inr \<lparr> result_title = getProp item ''title'',
                 link = getProp item ''link'',
                 snippet = getProp item ''snippet'',
                 pagemap = getProp item ''pagemap'',
                 datePublished =
                   or_json (optProp (opt_first (optProp (getProp item ''pagemap'') ''metatags''))
                              ''article:published_time'')
                     (JStr []),
                 source = or_json (getProp item ''displayLink'') (JStr []) \<rparr>)"

fun mapResults :: "json list \<Rightarrow> thrown + SearchResult list" where
  "mapResults [] = Inr []"
| "mapResults (item # rest) =
     (case toSearchResult item of
        Inl error \<Rightarrow> Inl error
      | Inr r \<Rightarrow> (case mapResults rest of Inl error \<Rightarrow> Inl error | Inr rs \<Rightarrow> Inr (r # rs)))"

definition buildParams :: "env \<Rightarrow> jsstring \<Rightarrow> jsstring \<Rightarrow> search_args \<Rightarrow> search_params" where
  "buildParams e apiKey searchEngineId args =
     \<lparr> key = apiKey,
       cx = searchEngineId,
       q = query args,
       num = (case num_results args of None \<Rightarrow> 5 | Some n \<Rightarrow> if n \<noteq> 0 then n else 5),
       dateRestrict = date_restrict args,
       lr = (case language args of
               None \<Rightarrow> None
             | Some l \<Rightarrow> if truthy_str l then Some (js ''lang_'' @ l) else None),
       cr = (case country args of
               None \<Rightarrow> None
             | Some c \<Rightarrow>
                 if truthy_str c then Some (js ''country'' @ toUpperCase (unicode_upper e) c)
                 else None),
       safe = or_str (safe_search args) (js ''off'') \<rparr>"

definition handleSearch :: "env \<Rightarrow> search_args \<Rightarrow> SearchResult list response \<times> event list" where
  "handleSearch e args =
     (if \<not> truthy_str (trim (query args)) then (IsError EmptyQuery, [])
      else if (case num_results args of
                 None \<Rightarrow> False
               | Some n \<Rightarrow> n \<noteq> 0 \<and> (n < 1 \<or> n > 10))
      then (IsError InvalidResultCount, [])
      else
        (let (apiKey, searchEngineId) = getApiKeys e;
             params = buildParams e apiKey searchEngineId args;
             log = [CredentialLookup, SearchRequest params]
         in case search_api e params of
              Inl error \<Rightarrow> (handleError error Search, log)
            | Inr data \<Rightarrow>
                if \<not> truthy (items data) \<or> \<not> isArray (items data)
                then (IsError NoResults, log)
                else (case mapResults (case items data of Some (JArr xs) \<Rightarrow> xs | _ \<Rightarrow> []) of
                        Inl error \<Rightarrow> (handleError error Search, log)
                      | Inr results \<Rightarrow> (Content results, log))))"

section \<open>The page handlers\<close>

definition handleAnalyzeWebpage :: "env \<Rightarrow> jsstring \<Rightarrow> WebpageContent response \<times> event list" where
  "handleAnalyzeWebpage e u =
     (case new_URL e u of
        None \<Rightarrow> (IsError InvalidUrl, [])
      | Some parsed \<Rightarrow>
          (case fetchContent e u of
             (Inr content, log) \<Rightarrow> (Content content, log)
           | (Inl error, log) \<Rightarrow> (handleError error WebpageExtraction, log)))"

text \<open>\<open>results[url] && !('error' in results[url])\<close>\<close>

definition successful :: "(jsstring \<times> entry) list \<Rightarrow> jsstring \<Rightarrow> bool" where
  "successful results u =
     (case map_of results u of Some (Page content) \<Rightarrow> True | _ \<Rightarrow> False)"

definition handleBatchAnalyzeWebpages :: "env \<Rightarrow> jsstring list
    \<Rightarrow> (jsstring \<times> entry) list response \<times> event list" where
  "handleBatchAnalyzeWebpages e urls =
     (if length urls > 5 then (IsError LimitExceeded, [])
      else
        (let invalidUrls = filter (\<lambda>u. new_URL e u = None) urls
         in if length invalidUrls > 0 then (IsError (InvalidUrls invalidUrls), [])
            else
              (case batchFetchContent e urls of
                 (Inl error, log) \<Rightarrow> (handleError error BatchWebpageExtraction, log)
               | (Inr results, log) \<Rightarrow>
                   (let successfulUrls = filter (successful results) (keys results)
                    in if length successfulUrls = 0 then (IsError NoContentExtracted, log)
                       else (Content results, log)))))"

section \<open>A sample environment\<close>

text \<open>
  A concrete environment for evaluating the code. \<open>example_parser\<close> stands for the
  rest of the URL parser: it accepts \<open>scheme://host...\<close> with a host that is not
  empty, as the runtime does for the URLs used below. The web serves one page, at
  \<open>https://example.com\<close>, and answers 404 elsewhere. The search service answers the
  query \<open>empty\<close> with an empty list, the query \<open>missing\<close> without a list, and any
  other query with one item.
\<close>

definition example_parser :: "jsstring \<Rightarrow> URL option" where
  "example_parser u =
     (let s = url_input u;
          scheme = takeWhile (\<lambda>c. c \<noteq> 0x3A) s;
          rest = drop (Suc (length scheme)) s;
          host = takeWhile (\<lambda>c. c \<notin> set [0x2F, 0x3F, 0x23]) (drop 2 rest)
      in if take 2 rest = js ''//'' \<and> host \<noteq> []
         then Some \<lparr> protocol = scheme @ [0x3A], hostname = host \<rparr>
         else None)"

definition example_html :: jsstring where
  "example_html = js ''<h1>A</h1><p>B C</p>''"

definition example_document :: document where
  "example_document =
     \<lparr> html_attrs = [], head_attrs = [], head_nodes = [], body_attrs = [],
       body_nodes = [Element (js ''h1'') [] [Text (js ''A'')],
                     Element (js ''p'') [] [Text (js ''B C'')]] \<rparr>"

definition empty_document :: document where
  "empty_document =
     \<lparr> html_attrs = [], head_attrs = [], head_nodes = [], body_attrs = [], body_nodes = [] \<rparr>"

definition example_item :: json where
  "example_item =
     JObj [(js ''title'', JStr (js ''Example Domain'')),
           (js ''link'', JStr (js ''https://example.com'')),
           (js ''snippet'', JStr (js ''An example'')),
           (js ''displayLink'', JStr (js ''example.com''))]"

definition example_env :: env where
  "example_env =
     \<lparr> test_mode = False,
       GOOGLE_API_KEY = Some (js ''key''),
       GOOGLE_SEARCH_ENGINE_ID = Some (js ''engine''),
       url_parser = example_parser,
       unicode_upper = (\<lambda>s. s),
       search_api = (\<lambda>p. if q p = js ''empty'' then Inr \<lparr> items = Some (JArr []) \<rparr>
                           else if q p = js ''missing'' then Inr \<lparr> items = None \<rparr>
                           else Inr \<lparr> items = Some (JArr [example_item]) \<rparr>),
       http_get = (\<lambda>u. if u = js ''https://example.com'' then Inr example_html
                         else Inl (AxiosResponseError 404 None
                                     (Native (js ''Request failed with status code 404'')))),
       cheerio_load = (\<lambda>html. if html = example_html then example_document
                                else empty_document) \<rparr>"

definition example_args :: search_args where
  "example_args =
     \<lparr> query = js ''cats'', num_results = None, date_restrict = None, language = None,
       country = None, safe_search = None \<rparr>"

section \<open>Facts about strings and objects\<close>

lemma truthy_str_Nil: "\<not> truthy_str []"
  by (simp add: truthy_str_def)

lemma truthy_str_Cons: "s \<noteq> [] \<Longrightarrow> truthy_str s"
  by (simp add: truthy_str_def)

lemma ws_tokens_dropWhile: "ws_tokens (dropWhile is_js_space s) = ws_tokens s"
  by (induction s) simp_all

lemma ws_tokens_word:
  "xs \<noteq> [] \<Longrightarrow> list_all (\<lambda>c. \<not> is_js_space c) xs \<Longrightarrow>
   ws_tokens (xs @ ys) =
     (xs @ takeWhile (\<lambda>x. \<not> is_js_space x) ys) # ws_tokens (dropWhile (\<lambda>x. \<not> is_js_space x) ys)"
  by (cases xs) (simp_all add: list_all_iff takeWhile_append2 dropWhile_append2)

lemma ws_tokens_word_space:
  assumes "xs \<noteq> []" "list_all (\<lambda>c. \<not> is_js_space c) xs" "is_js_space c"
  shows "ws_tokens (xs @ c # cs) = xs # ws_tokens cs"
  using assms by (simp add: ws_tokens_word)

lemma ws_tokens_word_only:
  assumes "xs \<noteq> []" "list_all (\<lambda>c. \<not> is_js_space c) xs"
  shows "ws_tokens xs = [xs]"
  using ws_tokens_word [OF assms, of "[]"] by simp

text \<open>
  The pieces of \<open>split(/\s+/)\<close> that \<open>filter(Boolean)\<close> keeps are the tokens of the
  text, whatever piece is being read when the scan starts.
\<close>

lemma split_filter_tokens:
  "list_all (\<lambda>c. \<not> is_js_space c) acc \<Longrightarrow>
   filter truthy_str (js_split_ws acc s) = ws_tokens (acc @ s)"
proof (induction acc s rule: js_split_ws.induct)
  case (1 acc)
  then show ?case
    by (cases "acc = []") (simp_all add: truthy_str_Nil truthy_str_Cons ws_tokens_word_only)
next
  case (2 acc c cs)
  show ?case
  proof (cases "is_js_space c")
    case True
    with 2 have rest: "filter truthy_str (js_split_ws [] (dropWhile is_js_space cs)) = ws_tokens cs"
      by (simp add: ws_tokens_dropWhile)
    show ?thesis
    proof (cases "acc = []")
      case True
      with \<open>is_js_space c\<close> rest show ?thesis by (simp add: truthy_str_Nil)
    next
      case False
      with \<open>is_js_space c\<close> rest 2 show ?thesis
        by (simp add: truthy_str_Cons ws_tokens_word_space)
    qed
  next
    case False
    with 2 show ?thesis by simp
  qed
qed

lemma count_words_tokens: "count_words s = length (ws_tokens s)"
  using split_filter_tokens [of "[]" s] by (simp add: count_words_def)

lemma trim_blank: "list_all is_js_space s \<Longrightarrow> trim s = []"
  by (induction s) (simp_all add: trim_def)

lemma keys_obj_set:
  "set (keys (obj_set obj k v))
     = (if k = js ''__proto__'' then set (keys obj) else insert k (set (keys obj)))"
  by (induction obj) (force simp: keys_def split: if_splits)+

lemma distinct_obj_set:
  "distinct (keys obj) \<Longrightarrow> distinct (keys (obj_set obj k v))"
proof (induction obj)
  case Nil
  then show ?case by (simp add: keys_def)
next
  case (Cons p ps)
  obtain k' v' where p: "p = (k', v')" by (cases p)
  from Cons have "distinct (keys (obj_set ps k v))" by (simp add: keys_def)
  moreover from Cons.prems have "k' \<notin> set (keys ps)" by (simp add: keys_def p)
  ultimately show ?case
    using Cons.prems keys_obj_set [of ps k v] by (auto simp: keys_def p)
qed

lemma map_of_obj_set:
  "js ''__proto__'' \<noteq> k \<Longrightarrow> map_of (obj_set obj k v) = (map_of obj)(k \<mapsto> v)"
  by (induction obj) (auto simp: fun_eq_iff)

section \<open>Facts about the sample environment\<close>

lemma example_env_production: "\<not> test_mode example_env"
  by (simp add: example_env_def)

lemma example_url_parses:
  "new_URL example_env (js ''https://example.com'') =
     Some \<lparr> protocol = js ''https:'', hostname = js ''example.com'' \<rparr>"
  by (simp add: new_URL_def example_env_def example_parser_def url_input_def has_scheme_def
      is_ascii_alpha_def is_scheme_char_def is_ascii_digit_def js_def Let_def)

lemma example_org_parses:
  "new_URL example_env (js ''https://example.org'') =
     Some \<lparr> protocol = js ''https:'', hostname = js ''example.org'' \<rparr>"
  by (simp add: new_URL_def example_env_def example_parser_def url_input_def has_scheme_def
      is_ascii_alpha_def is_scheme_char_def is_ascii_digit_def js_def Let_def)

lemma ftp_parses:
  "new_URL example_env (js ''ftp://example.com/file'')
     = Some \<lparr> protocol = js ''ftp:'', hostname = js ''example.com'' \<rparr>"
  by (simp add: new_URL_def example_env_def example_parser_def url_input_def has_scheme_def
      is_ascii_alpha_def is_scheme_char_def is_ascii_digit_def js_def Let_def)

lemma example_env_page:
  "http_get example_env (js ''https://example.com'') = Inr example_html
   \<and> cheerio_load example_env example_html = example_document"
  by (simp add: example_env_def)

lemma example_org_not_served:
  "http_get example_env (js ''https://example.org'')
     = Inl (AxiosResponseError 404 None (Native (js ''Request failed with status code 404'')))"
  by (simp add: example_env_def js_def)

lemma ftp_not_served:
  "http_get example_env (js ''ftp://example.com/file'')
     = Inl (AxiosResponseError 404 None (Native (js ''Request failed with status code 404'')))"
  by (simp add: example_env_def js_def)

lemma example_extract:
  "extractContent example_document u =
     \<lparr> url = u, title = js ''No Title'', description = [],
       markdown_content = js ''# A'' @ [0xA, 0xA] @ js ''B C'' @ [0xA, 0xA],
       meta_tags = [],
       stats = \<lparr> word_count = 4, approximate_chars = 10 \<rparr>,
       content_preview = \<lparr> first_500_chars = js ''# A'' @ [0xA, 0xA] @ js ''B C'' @ [0xA, 0xA] \<rparr> \<rparr>"
  by (simp add: extractContent_def example_document_def main_blocks_def root_element_def
      body_element_def remove_noise_def select_def find_in_def noise_def is_tag_def has_class_def
      has_attr_def is_role_main_def is_content_div_def is_block_def render_block_def
      first_attr_def or_str_def truthy_str_def trim_def is_js_space_def parseInt_def
      is_ascii_digit_def count_words_def js_def Let_def)

lemma example_fetch:
  "fetchContent example_env (js ''https://example.com'')
     = (Inr (extractContent example_document (js ''https://example.com'')),
        [PageRequest (js ''https://example.com'')])"
  using example_env_production example_env_page
  by (simp add: fetchContent_def example_url_parses)

lemma example_org_fetch:
  "fetchContent example_env (js ''https://example.org'')
     = (Inl (ErrorObject (HttpFailure 404 (js ''https://example.org''))),
        [PageRequest (js ''https://example.org'')])"
  using example_env_production
  by (simp add: fetchContent_def example_org_parses example_org_not_served rethrow_def)

section \<open>The search handler\<close>

text \<open>
  Claim C7. A query that is empty or consists of white space only is answered with the
  \<open>EmptyQuery\<close> error, and nothing has been done before: the credentials were not
  read and no request was sent.
\<close>

theorem blank_query_rejected:
  "\<forall>c \<in> set (query args). is_js_space c \<Longrightarrow> handleSearch e args = (IsError EmptyQuery, [])"
  by (simp add: handleSearch_def trim_blank list_all_iff truthy_str_def)

theorem blank_query_rejected_witness:
  "list_all is_js_space (js '' '' @ [0x3000, 0x9]) \<and>
   handleSearch example_env (example_args\<lparr>query := js '' '' @ [0x3000, 0x9]\<rparr>) = (IsError EmptyQuery, []) \<and>
   handleSearch example_env (example_args\<lparr>query := []\<rparr>) = (IsError EmptyQuery, [])"
  using blank_query_rejected [of "example_args\<lparr>query := js '' '' @ [0x3000, 0x9]\<rparr>" example_env]
    blank_query_rejected [of "example_args\<lparr>query := []\<rparr>" example_env]
  by (simp add: js_def is_js_space_def)

text \<open>
  A result count that is negative or above 10 is answered with \<open>InvalidResultCount\<close>
  before anything is done.
\<close>

lemma result_count_rejected:
  assumes "truthy_str (trim (query args))" and "num_results args = Some n"
    and "n < 0 \<or> n > 10"
  shows "handleSearch e args = (IsError InvalidResultCount, [])"
  using assms by (auto simp: handleSearch_def)

text \<open>
  Claim C3 says that every result count outside the interval from 1 to 10, 0 included,
  is answered with \<open>InvalidResultCount\<close>. The guard of the code tests
  \<open>args.num_results && ...\<close>, and 0 is falsy: a result count of 0 passes the guard, is
  replaced by the default 5, and the search is carried out.
\<close>

theorem zero_result_count_accepted:
  "handleSearch example_env (example_args\<lparr>num_results := Some 0\<rparr>)
     = (Content [\<lparr> result_title = Some (JStr (js ''Example Domain'')),
                   link = Some (JStr (js ''https://example.com'')),
                   snippet = Some (JStr (js ''An example'')),
                   pagemap = None, datePublished = JStr [],
                   source = JStr (js ''example.com'') \<rparr>],
        [CredentialLookup,
         SearchRequest \<lparr> key = js ''key'', cx = js ''engine'', q = js ''cats'', num = 5,
                         dateRestrict = None, lr = None, cr = None, safe = js ''off'' \<rparr>])"
  by (simp add: handleSearch_def example_env_def example_args_def example_item_def
      getApiKeys_def buildParams_def toSearchResult_def or_str_def or_json_def truthy_str_def
      trim_def is_js_space_def js_def Let_def)

theorem zero_result_count_accepted_witness:
  "fst (handleSearch example_env (example_args\<lparr>num_results := Some 0\<rparr>))
     \<noteq> IsError InvalidResultCount
   \<and> length (snd (handleSearch example_env (example_args\<lparr>num_results := Some 0\<rparr>))) = 2"
  using zero_result_count_accepted by simp

text \<open>
  Claim C5. When the query and the result count have passed the checks and the search
  service answers: an \<open>items\<close> array that is empty gives the empty list of results, not
  an error; a response without \<open>items\<close>, or with \<open>items\<close> that is not an array, gives
  the \<open>NoResults\<close> error.
\<close>

theorem items_decide_result:
  assumes "truthy_str (trim (query args))"
    and "case num_results args of None \<Rightarrow> True | Some n \<Rightarrow> n = 0 \<or> (1 \<le> n \<and> n \<le> 10)"
    and "search_api e (buildParams e (fst (getApiKeys e)) (snd (getApiKeys e)) args) = Inr data"
  shows "(items data = Some (JArr []) \<longrightarrow> fst (handleSearch e args) = Content [])
       \<and> (items data = None \<longrightarrow> fst (handleSearch e args) = IsError NoResults)
       \<and> (\<not> isArray (items data) \<longrightarrow> fst (handleSearch e args) = IsError NoResults)"
  using assms
  by (auto simp: handleSearch_def Let_def split_beta split: option.splits)

theorem items_decide_result_witness:
  "fst (handleSearch example_env (example_args\<lparr>query := js ''empty''\<rparr>)) = Content []
   \<and> fst (handleSearch example_env (example_args\<lparr>query := js ''missing''\<rparr>)) = IsError NoResults"
proof -
  have "search_api example_env
          (buildParams example_env (fst (getApiKeys example_env)) (snd (getApiKeys example_env))
             (example_args\<lparr>query := js ''empty''\<rparr>))
        = Inr \<lparr> items = Some (JArr []) \<rparr>"
    by (simp add: example_env_def buildParams_def)
  moreover have "search_api example_env
          (buildParams example_env (fst (getApiKeys example_env)) (snd (getApiKeys example_env))
             (example_args\<lparr>query := js ''missing''\<rparr>))
        = Inr \<lparr> items = None \<rparr>"
    by (simp add: example_env_def buildParams_def js_def)
  moreover have "truthy_str (trim (js ''empty''))" "truthy_str (trim (js ''missing''))"
    by (simp_all add: truthy_str_def trim_def is_js_space_def js_def)
  ultimately show ?thesis
    using items_decide_result [of "example_args\<lparr>query := js ''empty''\<rparr>" example_env
        "\<lparr> items = Some (JArr []) \<rparr>"]
      items_decide_result [of "example_args\<lparr>query := js ''missing''\<rparr>" example_env
        "\<lparr> items = None \<rparr>"]
    by (simp add: example_args_def)
qed

text \<open>
  Claim C8 says that a language \<open>l\<close> that is given becomes \<open>lr = "lang_" + l\<close>. The code
  tests \<open>args.language ? ... : undefined\<close>: a language given as the empty string sets no
  \<open>lr\<close> at all.
\<close>

theorem empty_language_dropped:
  "lr (buildParams example_env (js ''key'') (js ''engine'') (example_args\<lparr>language := Some []\<rparr>))
     = None
   \<and> lr (buildParams example_env (js ''key'') (js ''engine'') (example_args\<lparr>language := Some []\<rparr>))
     \<noteq> Some (js ''lang_'' @ [])"
  by (simp add: buildParams_def truthy_str_def)

text \<open>
  Claim C8, amended. A query that has passed the checks is sent upstream once, after the
  credentials are read, with these parameters: \<open>q\<close> is the query text unchanged,
  \<open>dateRestrict\<close> is \<open>date_restrict\<close> unchanged, a language \<open>l\<close> that is not empty
  gives \<open>lr = "lang_" + l\<close>, a country \<open>c\<close> that is not empty gives
  \<open>cr = "country" + c.toUpperCase()\<close>, and \<open>safe\<close> is \<open>"off"\<close> when no safe-search
  level is given.
\<close>

theorem upstream_params:
  assumes "truthy_str (trim (query args))"
    and "case num_results args of None \<Rightarrow> True | Some n \<Rightarrow> n = 0 \<or> (1 \<le> n \<and> n \<le> 10)"
  shows "\<exists>p. snd (handleSearch e args) = [CredentialLookup, SearchRequest p]
           \<and> q p = query args
           \<and> dateRestrict p = date_restrict args
           \<and> (\<forall>l. language args = Some l \<and> l \<noteq> [] \<longrightarrow> lr p = Some (js ''lang_'' @ l))
           \<and> (\<forall>c. country args = Some c \<and> c \<noteq> [] \<longrightarrow>
                 cr p = Some (js ''country'' @ toUpperCase (unicode_upper e) c))
           \<and> (safe_search args = None \<longrightarrow> safe p = js ''off'')"
proof -
  let ?p = "buildParams e (fst (getApiKeys e)) (snd (getApiKeys e)) args"
  have sent: "snd (handleSearch e args) = [CredentialLookup, SearchRequest ?p]"
    using assms
    by (auto simp: handleSearch_def Let_def split_beta split: sum.splits option.splits)
  have same: "q ?p = query args"
    by (simp add: buildParams_def)
  have date: "dateRestrict ?p = date_restrict args"
    by (simp add: buildParams_def)
  have lang: "\<forall>l. language args = Some l \<and> l \<noteq> [] \<longrightarrow> lr ?p = Some (js ''lang_'' @ l)"
    by (simp add: buildParams_def truthy_str_def)
  have ctry: "\<forall>c. country args = Some c \<and> c \<noteq> [] \<longrightarrow>
      cr ?p = Some (js ''country'' @ toUpperCase (unicode_upper e) c)"
    by (simp add: buildParams_def truthy_str_def)
  have level: "safe_search args = None \<longrightarrow> safe ?p = js ''off''"
    by (simp add: buildParams_def or_str_def)
  show ?thesis
    by (rule exI [of _ ?p]) (intro conjI sent same date lang ctry level)
qed

theorem upstream_params_witness:
  "snd (handleSearch example_env
          (example_args\<lparr>date_restrict := Some (js ''m3''), language := Some (js ''ja''),
                         country := Some (js ''us'')\<rparr>))
     = [CredentialLookup,
        SearchRequest \<lparr> key = js ''key'', cx = js ''engine'', q = js ''cats'', num = 5,
                        dateRestrict = Some (js ''m3''), lr = Some (js ''lang_ja''),
                        cr = Some (js ''countryUS''), safe = js ''off'' \<rparr>]"
proof -
  let ?args = "example_args\<lparr>date_restrict := Some (js ''m3''), language := Some (js ''ja''),
                         country := Some (js ''us'')\<rparr>"
  have "truthy_str (trim (query ?args))"
    by (simp add: example_args_def truthy_str_def trim_def is_js_space_def js_def)
  moreover have "case num_results ?args of None \<Rightarrow> True | Some n \<Rightarrow> n = 0 \<or> (1 \<le> n \<and> n \<le> 10)"
    by (simp add: example_args_def)
  ultimately obtain p where p: "snd (handleSearch example_env ?args) = [CredentialLookup, SearchRequest p]"
    using upstream_params [of ?args example_env] by blast
  then show ?thesis
    by (simp add: handleSearch_def example_env_def example_args_def example_item_def
        getApiKeys_def buildParams_def toSearchResult_def or_str_def or_json_def truthy_str_def
        trim_def is_js_space_def toUpperCase_def ascii_upper_def js_def Let_def)
qed

section \<open>The page handlers and the content fetcher\<close>

text \<open>
  Claim C6. Outside test mode, every page content that \<open>fetchContent\<close> returns has a
  word count equal to the number of non-empty white-space-delimited tokens of its
  \<open>markdown_content\<close>, a character count equal to its length, and a preview that is its
  prefix of length \<open>min(500, length)\<close>, with nothing added.
\<close>

theorem stats_of_content:
  assumes "\<not> test_mode e" and "fetchContent e u = (Inr c, log)"
  shows "word_count (stats c) = length (ws_tokens (markdown_content c))
       \<and> approximate_chars (stats c) = length (markdown_content c)
       \<and> first_500_chars (content_preview c)
           = take (min 500 (length (markdown_content c))) (markdown_content c)"
proof -
  from assms obtain d where c: "c = extractContent d u"
    by (auto simp: fetchContent_def split: option.splits sum.splits)
  show ?thesis
    unfolding c by (simp add: extractContent_def Let_def count_words_tokens min_def)
qed

theorem stats_of_content_witness:
  "fetchContent example_env (js ''https://example.com'')
     = (Inr (extractContent example_document (js ''https://example.com'')),
        [PageRequest (js ''https://example.com'')])
   \<and> word_count (stats (extractContent example_document (js ''https://example.com'')))
       = length (ws_tokens (js ''# A'' @ [0xA, 0xA] @ js ''B C'' @ [0xA, 0xA]))
   \<and> approximate_chars (stats (extractContent example_document (js ''https://example.com'')))
       = length (js ''# A'' @ [0xA, 0xA] @ js ''B C'' @ [0xA, 0xA])
   \<and> first_500_chars (content_preview (extractContent example_document (js ''https://example.com'')))
       = take (min 500 10) (js ''# A'' @ [0xA, 0xA] @ js ''B C'' @ [0xA, 0xA])"
proof -
  let ?c = "extractContent example_document (js ''https://example.com'')"
  have md: "markdown_content ?c = js ''# A'' @ [0xA, 0xA] @ js ''B C'' @ [0xA, 0xA]"
    by (simp add: example_extract)
  have len: "length (js ''# A'' @ [0xA, 0xA] @ js ''B C'' @ [0xA, 0xA]) = 10"
    by (simp add: js_def)
  show ?thesis
    using stats_of_content [OF example_env_production example_fetch] example_fetch
    by (simp only: md len)
qed

text \<open>
  Claim C2 says that the document \<open><h1>A</h1><p>B C</p>\<close> at \<open>https://example.com\<close>
  gives the text \<open># A\n\nB C\n\n\<close> and a word count of 3. The text is as claimed,
  but the heading mark \<open>#\<close> is a token of the text: the count is 4.
\<close>

theorem example_word_count_not_three:
  "cheerio_load example_env example_html = example_document
   \<and> markdown_content (extractContent example_document (js ''https://example.com''))
       = js ''# A'' @ [0xA, 0xA] @ js ''B C'' @ [0xA, 0xA]
   \<and> word_count (stats (extractContent example_document (js ''https://example.com''))) \<noteq> 3"
  by (simp add: example_extract example_env_def)

lemma blocks_of_plain_body:
  "main_blocks \<lparr> html_attrs = ha, head_attrs = hda, head_nodes = [], body_attrs = ba,
       body_nodes = [Element (js ''h1'') [] [Text (js ''A'')],
                     Element (js ''p'') [] [Text (js ''B C'')]] \<rparr>
   = [Element (js ''h1'') [] [Text (js ''A'')], Element (js ''p'') [] [Text (js ''B C'')]]"
  by (simp add: main_blocks_def root_element_def
      body_element_def remove_noise_def select_def find_in_def noise_def is_tag_def has_class_def
      has_attr_def is_role_main_def is_content_div_def is_block_def js_def Let_def)

lemma render_h1_A: "render_block (Element (js ''h1'') [] [Text (js ''A'')]) = js ''# A'' @ [0xA, 0xA]"
  by (simp add: render_block_def truthy_str_def trim_def is_js_space_def parseInt_def
      is_ascii_digit_def js_def Let_def)

lemma render_p_BC: "render_block (Element (js ''p'') [] [Text (js ''B C'')]) = js ''B C'' @ [0xA, 0xA]"
  by (simp add: render_block_def truthy_str_def trim_def is_js_space_def js_def Let_def)

lemma count_words_example: "count_words (js ''# A'' @ [0xA, 0xA] @ js ''B C'' @ [0xA, 0xA]) = 4"
  by (simp add: count_words_def truthy_str_def is_js_space_def js_def)

text \<open>
  Claim C2, amended. Outside test mode, when \<open>https://example.com\<close> parses as a URL and
  the page served there loads as a document with an empty head and the body
  \<open><h1>A</h1><p>B C</p>\<close>, \<open>fetchContent\<close> issues one request and returns a page content
  whose \<open>markdown_content\<close> is \<open># A\n\nB C\n\n\<close> and whose word count is 4.
\<close>

theorem example_scenario:
  assumes "\<not> test_mode e"
    and "new_URL e (js ''https://example.com'') = Some parsed"
    and "http_get e (js ''https://example.com'') = Inr html"
    and "cheerio_load e html =
           \<lparr> html_attrs = ha, head_attrs = hda, head_nodes = [], body_attrs = ba,
             body_nodes = [Element (js ''h1'') [] [Text (js ''A'')],
                           Element (js ''p'') [] [Text (js ''B C'')]] \<rparr>"
  shows "\<exists>c. fetchContent e (js ''https://example.com'')
              = (Inr c, [PageRequest (js ''https://example.com'')])
           \<and> markdown_content c = js ''# A'' @ [0xA, 0xA] @ js ''B C'' @ [0xA, 0xA]
           \<and> word_count (stats c) = 4"
proof -
  let ?d = "cheerio_load e html"
  have md: "concat (map render_block (main_blocks ?d))
              = js ''# A'' @ [0xA, 0xA] @ js ''B C'' @ [0xA, 0xA]"
    unfolding assms(4) blocks_of_plain_body by (simp add: render_h1_A render_p_BC)
  have "fetchContent e (js ''https://example.com'')
          = (Inr (extractContent ?d (js ''https://example.com'')),
             [PageRequest (js ''https://example.com'')])"
    using assms(1-3) by (simp add: fetchContent_def)
  moreover have "markdown_content (extractContent ?d (js ''https://example.com''))
                   = js ''# A'' @ [0xA, 0xA] @ js ''B C'' @ [0xA, 0xA]"
    using md by (simp add: extractContent_def Let_def)
  moreover have "word_count (stats (extractContent ?d (js ''https://example.com''))) = 4"
    using md count_words_example by (simp add: extractContent_def Let_def)
  ultimately show ?thesis by blast
qed

theorem example_scenario_witness:
  "\<exists>c. fetchContent example_env (js ''https://example.com'')
          = (Inr c, [PageRequest (js ''https://example.com'')])
       \<and> markdown_content c = js ''# A'' @ [0xA, 0xA] @ js ''B C'' @ [0xA, 0xA]
       \<and> word_count (stats c) = 4"
proof -
  have page: "http_get example_env (js ''https://example.com'') = Inr example_html"
    using example_env_page by simp
  have doc: "cheerio_load example_env example_html =
           \<lparr> html_attrs = [], head_attrs = [], head_nodes = [], body_attrs = [],
             body_nodes = [Element (js ''h1'') [] [Text (js ''A'')],
                           Element (js ''p'') [] [Text (js ''B C'')]] \<rparr>"
    by (simp add: example_env_def example_document_def)
  show ?thesis
    by (rule example_scenario [OF example_env_production example_url_parses page doc])
qed

text \<open>
  A string that \<open>new URL\<close> does not accept is answered with \<open>InvalidUrl\<close> by the
  handler, and \<open>fetchContent\<close> throws its invalid-URL error, in both cases without a
  request. \<open>invalid-url\<close> and \<open>__proto__\<close> have no scheme, so no parser accepts them.
\<close>

lemma unparseable_rejected:
  assumes "new_URL e u = None"
  shows "handleAnalyzeWebpage e u = (IsError InvalidUrl, [])
       \<and> snd (fetchContent e u) = []
       \<and> (\<not> test_mode e \<longrightarrow>
            fetchContent e u = (Inl (ErrorObject (ContentExtractionError (InvalidUrlFormat u))), []))"
  using assms
  by (simp add: handleAnalyzeWebpage_def fetchContent_def rethrow_def)

lemma invalid_url_not_url: "new_URL e (js ''invalid-url'') = None"
  by (simp add: new_URL_def url_input_def has_scheme_def is_ascii_alpha_def is_scheme_char_def
      is_ascii_digit_def js_def)

lemma proto_not_url: "new_URL e (js ''__proto__'') = None"
  by (simp add: new_URL_def url_input_def has_scheme_def is_ascii_alpha_def js_def)

text \<open>
  Claim C4 says that a string that is not an absolute URL with the scheme \<open>http\<close> or
  \<open>https\<close>, such as a URL with the scheme \<open>ftp\<close>, is answered with \<open>InvalidUrl\<close>
  before any request. The code only tests that \<open>new URL\<close> accepts the string, and the
  parser accepts any scheme: \<open>ftp://example.com/file\<close> passes both checks and is handed
  to \<open>axios.get\<close>. In the sample environment the request is answered 404, and that is
  the error reported.
\<close>

theorem ftp_url_requested:
  "fetchContent example_env (js ''ftp://example.com/file'')
     = (Inl (ErrorObject (HttpFailure 404 (js ''ftp://example.com/file''))),
        [PageRequest (js ''ftp://example.com/file'')])
   \<and> handleAnalyzeWebpage example_env (js ''ftp://example.com/file'')
     = (IsError (Failed WebpageExtraction None (HttpFailure 404 (js ''ftp://example.com/file'')) []),
        [PageRequest (js ''ftp://example.com/file'')])"
proof -
  have "fetchContent example_env (js ''ftp://example.com/file'')
     = (Inl (ErrorObject (HttpFailure 404 (js ''ftp://example.com/file''))),
        [PageRequest (js ''ftp://example.com/file'')])"
    using example_env_production ftp_not_served
    by (simp add: fetchContent_def ftp_parses rethrow_def)
  then show ?thesis
    by (simp add: handleAnalyzeWebpage_def ftp_parses handleError_def)
qed

theorem ftp_url_requested_witness:
  "fst (handleAnalyzeWebpage example_env (js ''ftp://example.com/file'')) \<noteq> IsError InvalidUrl
   \<and> snd (handleAnalyzeWebpage example_env (js ''ftp://example.com/file''))
       = [PageRequest (js ''ftp://example.com/file'')]
   \<and> snd (fetchContent example_env (js ''ftp://example.com/file''))
       = [PageRequest (js ''ftp://example.com/file'')]"
  using ftp_url_requested by simp

text \<open>
  Claim C9. A list of more than 5 URLs is answered with the \<open>LimitExceeded\<close> error by
  the handler, and \<open>batchFetchContent\<close> throws its limit error outside test mode; in
  every case no request is issued.
\<close>

theorem batch_limit:
  assumes "length urls > 5"
  shows "handleBatchAnalyzeWebpages e urls = (IsError LimitExceeded, [])
       \<and> snd (batchFetchContent e urls) = []
       \<and> (\<not> test_mode e \<longrightarrow> batchFetchContent e urls = (Inl (ErrorObject BatchLimit), []))"
  using assms by (simp add: handleBatchAnalyzeWebpages_def batchFetchContent_def)

theorem batch_limit_witness:
  "handleBatchAnalyzeWebpages example_env (replicate 6 (js ''https://example.com''))
     = (IsError LimitExceeded, [])
   \<and> batchFetchContent example_env (replicate 6 (js ''https://example.com''))
     = (Inl (ErrorObject BatchLimit), [])"
  using batch_limit [of "replicate 6 (js ''https://example.com'')" example_env]
    example_env_production
  by simp

text \<open>
  The keys of the result of the loop over the URLs: every URL other than \<open>__proto__\<close>
  becomes a key, once.
\<close>

lemma fetchAll_keys:
  "js ''__proto__'' \<notin> set urls \<Longrightarrow>
   set (keys (fst (fetchAll e results urls))) = set (keys results) \<union> set urls"
proof (induction urls arbitrary: results)
  case Nil
  then show ?case by simp
next
  case (Cons u us)
  then show ?case
    by (auto simp: split_beta keys_obj_set)
qed

lemma fetchAll_distinct:
  "distinct (keys results) \<Longrightarrow> distinct (keys (fst (fetchAll e results urls)))"
  by (induction urls arbitrary: results) (simp_all add: split_beta distinct_obj_set)

lemma fetchAll_map_of:
  "js ''__proto__'' \<notin> set urls \<Longrightarrow>
   map_of (fst (fetchAll e results urls)) k
     = (if k \<in> set urls then Some (fst (fetchEntry e k)) else map_of results k)"
proof (induction urls arbitrary: results)
  case Nil
  then show ?case by simp
next
  case (Cons u us)
  then show ?case by (simp add: split_beta map_of_obj_set)
qed

text \<open>
  Outside test mode, a list of at most 5 strings, none of them \<open>__proto__\<close>, gives a
  mapping whose keys are exactly the strings of the list, each once, whatever fails.
\<close>

lemma batch_keys:
  assumes "\<not> test_mode e" and "length urls \<le> 5" and "js ''__proto__'' \<notin> set urls"
  shows "\<exists>results log. batchFetchContent e urls = (Inr results, log)
           \<and> set (keys results) = set urls \<and> distinct (keys results)"
proof -
  have "batchFetchContent e urls = (Inr (fst (fetchAll e [] urls)), snd (fetchAll e [] urls))"
    using assms(1,2) by (simp add: batchFetchContent_def split_beta)
  moreover have "set (keys (fst (fetchAll e [] urls))) = set urls"
    using fetchAll_keys [OF assms(3), of e "[]"] by (simp add: keys_def)
  moreover have "distinct (keys (fst (fetchAll e [] urls)))"
    using fetchAll_distinct [of "[]" e urls] by (simp add: keys_def)
  ultimately show ?thesis by blast
qed

text \<open>
  Claim C1 says that for every list of at most 5 strings the keys of the mapping are
  exactly the strings of the list. The mapping is a plain object, and the string
  \<open>__proto__\<close> does not become a key of it: for the list \<open>["__proto__"]\<close>, which is
  not a URL, the error entry is assigned to the prototype accessor and the mapping
  returned has no key.
\<close>

theorem proto_key_lost:
  "batchFetchContent example_env [js ''__proto__''] = (Inr [], [])"
  using example_env_production
  by (simp add: batchFetchContent_def fetchEntry_def fetchContent_def proto_not_url rethrow_def)

theorem proto_key_lost_witness:
  "(case fst (batchFetchContent example_env [js ''__proto__'']) of
      Inl error \<Rightarrow> False
    | Inr results \<Rightarrow> set (keys results) \<noteq> set [js ''__proto__''])"
  using proto_key_lost by (simp add: keys_def)

lemma fetchEntry_Page:
  "(\<exists>c. fst (fetchEntry e u) = Page c) \<longleftrightarrow> (\<exists>c. fst (fetchContent e u) = Inr c)"
  by (cases "fetchContent e u") (auto simp: fetchEntry_def split: sum.splits thrown.splits)

text \<open>In test mode the loop over URLs that all parse stores the same entries.\<close>

lemma mock_as_fetchAll:
  "test_mode e \<Longrightarrow> list_all (\<lambda>u. new_URL e u \<noteq> None) urls \<Longrightarrow>
   mockResults e results urls = Inr (fst (fetchAll e results urls))"
proof (induction urls arbitrary: results)
  case Nil
  then show ?case by simp
next
  case (Cons u us)
  from Cons.prems obtain p where p: "new_URL e u = Some p" by auto
  from Cons.prems have rest: "list_all (\<lambda>u. new_URL e u \<noteq> None) us" by simp
  obtain c where c: "generateMockWebpageContent e u = Inr c"
    using p by (simp add: generateMockWebpageContent_def Let_def)
  with Cons.prems(1) have "fetchEntry e u = (Page c, [])"
    by (simp add: fetchEntry_def fetchContent_def)
  with c Cons.IH [OF Cons.prems(1) rest] show ?case
    by (simp add: split_beta)
qed

lemma batch_as_fetchAll:
  assumes "length urls \<le> 5" and "list_all (\<lambda>u. new_URL e u \<noteq> None) urls"
  shows "fst (batchFetchContent e urls) = Inr (fst (fetchAll e [] urls))"
  using assms by (simp add: batchFetchContent_def split_beta mock_as_fetchAll)

lemma successful_fetchAll:
  assumes "js ''__proto__'' \<notin> set urls" and "u \<in> set urls"
  shows "successful (fst (fetchAll e [] urls)) u \<longleftrightarrow> (\<exists>c. fst (fetchContent e u) = Inr c)"
proof -
  have "successful (fst (fetchAll e [] urls)) u \<longleftrightarrow> (\<exists>c. fst (fetchEntry e u) = Page c)"
    using assms by (simp add: successful_def fetchAll_map_of split: entry.splits)
  then show ?thesis by (simp add: fetchEntry_Page)
qed

text \<open>
  Claim C10. For a list of at most 5 URLs that all parse: when every extraction fails,
  the handler answers with the error response \<open>NoContentExtracted\<close> and not with the
  mapping of error entries; when at least one extraction succeeds, it answers with the
  mapping that \<open>batchFetchContent\<close> returned.
\<close>

theorem nothing_extracted:
  assumes "length urls \<le> 5" and "\<forall>u \<in> set urls. new_URL e u \<noteq> None"
  shows "((\<forall>u \<in> set urls. \<exists>error. fst (fetchContent e u) = Inl error)
            \<longrightarrow> fst (handleBatchAnalyzeWebpages e urls) = IsError NoContentExtracted)
       \<and> ((\<exists>u \<in> set urls. \<exists>c. fst (fetchContent e u) = Inr c)
            \<longrightarrow> (\<exists>results. fst (batchFetchContent e urls) = Inr results
                   \<and> fst (handleBatchAnalyzeWebpages e urls) = Content results))"
proof -
  let ?results = "fst (fetchAll e [] urls)"
  from assms(2) have valid: "list_all (\<lambda>u. new_URL e u \<noteq> None) urls"
    by (simp add: list_all_iff)
  from assms(2) have proto: "js ''__proto__'' \<notin> set urls"
    using proto_not_url by blast
  have batch: "fst (batchFetchContent e urls) = Inr ?results"
    using batch_as_fetchAll [OF assms(1) valid] .
  have keys: "set (keys ?results) = set urls"
    using fetchAll_keys [OF proto, of e "[]"] by (simp add: keys_def)
  have none: "filter (\<lambda>u. new_URL e u = None) urls = []"
    using assms(2) by (simp add: filter_empty_conv)
  have handler: "fst (handleBatchAnalyzeWebpages e urls)
      = (if filter (successful ?results) (keys ?results) = [] then IsError NoContentExtracted
         else Content ?results)"
    using assms(1) none batch
    by (cases "batchFetchContent e urls") (simp add: handleBatchAnalyzeWebpages_def Let_def)
  have empty: "filter (successful ?results) (keys ?results) = []
      \<longleftrightarrow> (\<forall>u \<in> set urls. \<not> (\<exists>c. fst (fetchContent e u) = Inr c))"
    using keys successful_fetchAll [OF proto] by (auto simp: filter_empty_conv)
  show ?thesis
  proof (intro conjI impI)
    assume "\<forall>u \<in> set urls. \<exists>error. fst (fetchContent e u) = Inl error"
    then have "\<forall>u \<in> set urls. \<not> (\<exists>c. fst (fetchContent e u) = Inr c)" by auto
    with handler empty show "fst (handleBatchAnalyzeWebpages e urls) = IsError NoContentExtracted"
      by simp
  next
    assume "\<exists>u \<in> set urls. \<exists>c. fst (fetchContent e u) = Inr c"
    with handler empty have "fst (handleBatchAnalyzeWebpages e urls) = Content ?results"
      by auto
    with batch show "\<exists>results. fst (batchFetchContent e urls) = Inr results
        \<and> fst (handleBatchAnalyzeWebpages e urls) = Content results"
      by blast
  qed
qed

theorem nothing_extracted_witness:
  "fst (handleBatchAnalyzeWebpages example_env [js ''https://example.org''])
     = IsError NoContentExtracted
   \<and> fst (handleBatchAnalyzeWebpages example_env [js ''https://example.org'', js ''https://example.com''])
     = Content [(js ''https://example.org'', ErrorEntry (HttpFailure 404 (js ''https://example.org''))),
                (js ''https://example.com'',
                 Page (extractContent example_document (js ''https://example.com'')))]"
proof -
  have org: "fst (fetchContent example_env (js ''https://example.org''))
      = Inl (ErrorObject (HttpFailure 404 (js ''https://example.org'')))"
    by (simp add: example_org_fetch)
  have com: "fst (fetchContent example_env (js ''https://example.com''))
      = Inr (extractContent example_document (js ''https://example.com''))"
    by (simp add: example_fetch)
  have differ: "js ''https://example.org'' \<noteq> js ''https://example.com''"
    "js ''https://example.org'' \<noteq> js ''__proto__''"
    "js ''https://example.com'' \<noteq> js ''__proto__''"
    by (simp_all add: js_def)
  have one: "fst (handleBatchAnalyzeWebpages example_env [js ''https://example.org''])
      = IsError NoContentExtracted"
    using nothing_extracted [of "[js ''https://example.org'']" example_env] org
    by (simp add: example_org_parses)
  have batch: "fst (batchFetchContent example_env [js ''https://example.org'', js ''https://example.com''])
      = Inr [(js ''https://example.org'', ErrorEntry (HttpFailure 404 (js ''https://example.org''))),
             (js ''https://example.com'',
              Page (extractContent example_document (js ''https://example.com'')))]"
    using example_env_production differ
    by (simp add: batchFetchContent_def fetchEntry_def example_org_fetch example_fetch)
  have two: "fst (handleBatchAnalyzeWebpages example_env
                    [js ''https://example.org'', js ''https://example.com''])
      = Content [(js ''https://example.org'', ErrorEntry (HttpFailure 404 (js ''https://example.org''))),
                 (js ''https://example.com'',
                  Page (extractContent example_document (js ''https://example.com'')))]"
    using nothing_extracted [of "[js ''https://example.org'', js ''https://example.com'']" example_env]
      com batch
    by (simp add: example_org_parses example_url_parses)
  from one two show ?thesis by simp
qed

end
